theory Spec2Isabelle
  imports Complex_Main "HOL-Library.Sublist"
begin

section \<open>JSON values as Python sees them\<close>

text \<open>
  \<^verbatim>\<open>response.json()\<close> yields a Python value built from \<^verbatim>\<open>None\<close>, \<^verbatim>\<open>bool\<close>,
  \<^verbatim>\<open>int\<close>, \<^verbatim>\<open>float\<close>, \<^verbatim>\<open>str\<close>, \<^verbatim>\<open>list\<close> and \<^verbatim>\<open>dict\<close>. A dictionary keeps
  its insertion order, so it is an association list; a finite float is read as the real
  number it denotes (the parser's \<^verbatim>\<open>NaN\<close> and infinities, all truthy, have no value here).
\<close>

datatype json =
    JNull
  | JBool bool
  | JInt int
  | JFloat real
  | JStr string
  | JArr "json list"
  | JObj "(string \<times> json) list"

text \<open>Python's truth value of such a value, as tested by \<^verbatim>\<open>or\<close> and \<^verbatim>\<open>if\<close>.\<close>

fun truthy :: "json \<Rightarrow> bool" where
  "truthy JNull = False"
| "truthy (JBool b) = b"
| "truthy (JInt n) = (n \<noteq> 0)"
| "truthy (JFloat x) = (x \<noteq> 0)"
| "truthy (JStr s) = (s \<noteq> [])"
| "truthy (JArr xs) = (xs \<noteq> [])"
| "truthy (JObj kvs) = (kvs \<noteq> [])"

text \<open>\<^verbatim>\<open>a or b\<close>: the first operand when it is truthy, else the second.\<close>

definition py_or :: "json \<Rightarrow> json \<Rightarrow> json" where
  "py_or a b = (if truthy a then a else b)"

text \<open>\<^verbatim>\<open>type(v).__name__\<close>, as it appears in the message of an AttributeError.\<close>

fun type_name :: "json \<Rightarrow> string" where
  "type_name JNull = ''NoneType''"
| "type_name (JBool b) = ''bool''"
| "type_name (JInt n) = ''int''"
| "type_name (JFloat x) = ''float''"
| "type_name (JStr s) = ''str''"
| "type_name (JArr xs) = ''list''"
| "type_name (JObj kvs) = ''dict''"

text \<open>\<^verbatim>\<open>isinstance(v, list)\<close> and \<^verbatim>\<open>isinstance(v, dict)\<close>\<close>

fun isinstance_list :: "json \<Rightarrow> bool" where
  "isinstance_list (JArr xs) = True"
| "isinstance_list v = False"

fun isinstance_dict :: "json \<Rightarrow> bool" where
  "isinstance_dict (JObj kvs) = True"
| "isinstance_dict v = False"

section \<open>Responses, requests and exceptions\<close>

text \<open>
  The fields of \<^verbatim>\<open>requests.Response\<close> that the client reads. \<open>resp_json\<close> is the
  outcome of \<^verbatim>\<open>response.json()\<close>: \<open>None\<close> when it raises \<^verbatim>\<open>ValueError\<close> (the body
  is not JSON), \<open>Some v\<close> when it returns \<open>v\<close>.
\<close>

record response =
  status_code :: int
  reason :: string
  resp_url :: string
  resp_text :: string
  resp_json :: "json option"

datatype py_error =
    ValueError string
  | HTTPError string response
  | PermissionError string
  | FileNotFoundError string
  | AttributeError string
  | RequestException string

datatype http_method = GET | POST

text \<open>What the client hands to \<^verbatim>\<open>http.get\<close> or \<^verbatim>\<open>http.post\<close>; a keyword argument that is not passed is \<open>None\<close>.\<close>

record request =
  req_method :: http_method
  req_url :: string
  req_json :: "json option"
  req_params :: "(string \<times> int) list option"
  req_headers :: "(string \<times> string) list option"
  req_timeout :: real

text \<open>
  The transport (\<^verbatim>\<open>requests\<close> itself or a \<^verbatim>\<open>requests.Session\<close>) is the only effect
  of the client. It acts on a world \<open>'w\<close> (the network, or the call log of a fake): a call
  takes the request and the world, and gives back the new world with either the exception
  it raised or the response.
\<close>

type_synonym 'w transport = "request \<Rightarrow> 'w \<Rightarrow> (py_error + response) \<times> 'w"

text \<open>\<^verbatim>\<open>http = session or requests\<close>\<close>

definition choose_http :: "'w transport option \<Rightarrow> 'w transport \<Rightarrow> 'w transport" where
  "choose_http session requests = (case session of Some s \<Rightarrow> s | None \<Rightarrow> requests)"

text \<open>The call of the chosen transport on \<open>req\<close> in world \<open>w\<close> returns the response \<open>r\<close> and leaves world \<open>w'\<close>.\<close>

abbreviation answers ::
  "'w transport option \<Rightarrow> 'w transport \<Rightarrow> request \<Rightarrow> 'w \<Rightarrow> response \<Rightarrow> 'w \<Rightarrow> bool" where
  "answers session requests req w r w' \<equiv> choose_http session requests req w = (Inr r, w')"

section \<open>Strings\<close>

text \<open>\<^verbatim>\<open>s.rstrip('/')\<close>\<close>

definition rstrip_slash :: "string \<Rightarrow> string" where
  "rstrip_slash s = rev (dropWhile (\<lambda>c. c = CHR ''/'') (rev s))"

text \<open>\<^verbatim>\<open>str(n)\<close> for an integer: its decimal digits, with a sign when negative.\<close>

fun str_nat :: "nat \<Rightarrow> string" where
  "str_nat n = (if n < 10 then [''0123456789'' ! n]
                else str_nat (n div 10) @ [''0123456789'' ! (n mod 10)])"

declare str_nat.simps [simp del]

definition str_int :: "int \<Rightarrow> string" where
  "str_int i = (if i < 0 then CHR ''-'' # str_nat (nat (- i)) else str_nat (nat i))"

text \<open>
  A value interpolated into an f-string: a \<^verbatim>\<open>str\<close> is inserted as it is, any other value
  through the builtin \<^verbatim>\<open>str\<close>, which is a parameter \<open>py_str\<close> of the model.
\<close>

definition fstr :: "(json \<Rightarrow> string) \<Rightarrow> json \<Rightarrow> string" where
  "fstr py_str v = (case v of JStr s \<Rightarrow> s | _ \<Rightarrow> py_str v)"

section \<open>Library behaviour the client relies on\<close>

text \<open>
  \<^verbatim>\<open>v.get(k)\<close>: on a dictionary the value stored under \<open>k\<close>, or \<^verbatim>\<open>None\<close> when the key is
  missing; any other JSON value has no attribute \<^verbatim>\<open>get\<close>, and the call raises
  \<^verbatim>\<open>AttributeError\<close>.
\<close>

definition dict_get :: "(string \<times> json) list \<Rightarrow> string \<Rightarrow> json" where
  "dict_get kvs k = (case map_of kvs k of None \<Rightarrow> JNull | Some v \<Rightarrow> v)"

definition json_get :: "json \<Rightarrow> string \<Rightarrow> py_error + json" where
  "json_get j k =
     (case j of
        JObj kvs \<Rightarrow> Inr (dict_get kvs k)
      | _ \<Rightarrow> Inl (AttributeError
                 ([CHR 0x27] @ type_name j @ [CHR 0x27] @ '' object has no attribute ''
                  @ [CHR 0x27] @ ''get'' @ [CHR 0x27])))"

text \<open>
  \<^verbatim>\<open>Response.raise_for_status()\<close> of the requests library, which is not part of the
  repository: it builds a message for a status from 400 to 499 (client error) and from
  500 to 599 (server error), raises \<^verbatim>\<open>HTTPError\<close> with that message and the response
  when there is one, and returns normally for every other status. \<open>None\<close> is the
  normal return.
\<close>

definition http_error_msg :: "response \<Rightarrow> string" where
  "http_error_msg r =
     (if 400 \<le> status_code r \<and> status_code r < 500 then
        str_int (status_code r) @ '' Client Error: '' @ reason r @ '' for url: '' @ resp_url r
      else if 500 \<le> status_code r \<and> status_code r < 600 then
        str_int (status_code r) @ '' Server Error: '' @ reason r @ '' for url: '' @ resp_url r
      else [])"

definition raise_for_status :: "response \<Rightarrow> py_error option" where
  "raise_for_status r =
     (if http_error_msg r \<noteq> [] then Some (HTTPError (http_error_msg r) r) else None)"

section \<open>Shared fragments of the four functions\<close>

text \<open>\<^verbatim>\<open>err_json.get("detail") or err_json.get("message")\<close>\<close>

definition detail_or_message :: "json \<Rightarrow> py_error + json" where
  "detail_or_message err_json =
     (case json_get err_json ''detail'' of
        Inl e \<Rightarrow> Inl e
      | Inr d \<Rightarrow> if truthy d then Inr d else json_get err_json ''message'')"

text \<open>
  The tail of each function, after \<^verbatim>\<open>raise_for_status\<close> returned:
  \<^verbatim>\<open>try: return response.json()
  except ValueError: return {"status_code": response.status_code, "content": response.text}\<close>
\<close>

definition parsed_or_raw :: "response \<Rightarrow> json" where
  "parsed_or_raw r =
     (case resp_json r of
        Some v \<Rightarrow> v
      | None \<Rightarrow> JObj [(''status_code'', JInt (status_code r)), (''content'', JStr (resp_text r))])"

definition raise_or_return :: "response \<Rightarrow> py_error + json" where
  "raise_or_return r =
     (case raise_for_status r of Some e \<Rightarrow> Inl e | None \<Rightarrow> Inr (parsed_or_raw r))"

section \<open>register_user\<close>

definition register_request :: "string \<Rightarrow> string \<Rightarrow> string \<Rightarrow> real \<Rightarrow> request" where
  "register_request username password base_url timeout_seconds =
     \<lparr>req_method = POST,
      req_url = rstrip_slash base_url @ ''/register'',
      req_json = Some (JObj [(''username'', JStr username), (''password'', JStr password)]),
      req_params = None,
      req_headers = None,
      req_timeout = timeout_seconds\<rparr>"

text \<open>Lines 48 to 78: what \<^verbatim>\<open>register_user\<close> makes of the response.\<close>

definition register_response :: "(json \<Rightarrow> string) \<Rightarrow> string \<Rightarrow> response \<Rightarrow> py_error + json" where
  "register_response py_str url r =
     (if status_code r = 200 then
        (case resp_json r of
           Some v \<Rightarrow> Inr v
         | None \<Rightarrow> Inl (HTTPError (''Expected JSON response from '' @ url
                                   @ '', but failed to parse.'') r))
      else if status_code r = 400 then
        (case resp_json r of
           None \<Rightarrow> Inl (ValueError (''Registration failed (400): '' @ resp_text r))
         | Some error_json \<Rightarrow>
             (case detail_or_message error_json of
                Inl e \<Rightarrow> Inl e
              | Inr m \<Rightarrow> Inl (ValueError (''Registration failed (400): ''
                                          @ fstr py_str (py_or m (JStr (resp_text r)))))))
      else raise_or_return r)"

definition register_user ::
  "(json \<Rightarrow> string) \<Rightarrow> 'w transport \<Rightarrow> string \<Rightarrow> string \<Rightarrow> string \<Rightarrow> real
     \<Rightarrow> 'w transport option \<Rightarrow> 'w \<Rightarrow> (py_error + json) \<times> 'w" where
  "register_user py_str requests username password base_url timeout_seconds session w =
     (if username = [] then (Inl (ValueError ''username must be a non-empty string''), w)
      else if password = [] then (Inl (ValueError ''password must be a non-empty string''), w)
      else
        (case choose_http session requests
                (register_request username password base_url timeout_seconds) w of
           (Inl request_error, w') \<Rightarrow> (Inl request_error, w')
         | (Inr r, w') \<Rightarrow>
             (register_response py_str (rstrip_slash base_url @ ''/register'') r, w')))"

section \<open>get_polls\<close>

definition polls_request :: "int \<Rightarrow> int \<Rightarrow> string \<Rightarrow> real \<Rightarrow> request" where
  "polls_request skip limit base_url timeout_seconds =
     \<lparr>req_method = GET,
      req_url = rstrip_slash base_url @ ''/polls'',
      req_json = None,
      req_params = Some [(''skip'', skip), (''limit'', limit)],
      req_headers = None,
      req_timeout = timeout_seconds\<rparr>"

text \<open>Lines 123 to 143.\<close>

definition polls_response :: "response \<Rightarrow> py_error + json" where
  "polls_response r =
     (if status_code r = 200 then
        (case resp_json r of
           None \<Rightarrow> Inl (HTTPError (''Expected JSON array from '' @ resp_url r
                                   @ '', but failed to parse.'') r)
         | Some data \<Rightarrow>
             if \<not> isinstance_list data
             then Inl (ValueError ''Expected response to be a JSON array of polls'')
             else Inr data)
      else raise_or_return r)"

definition get_polls ::
  "'w transport \<Rightarrow> int \<Rightarrow> int \<Rightarrow> string \<Rightarrow> real
     \<Rightarrow> 'w transport option \<Rightarrow> 'w \<Rightarrow> (py_error + json) \<times> 'w" where
  "get_polls requests skip limit base_url timeout_seconds session w =
     (if skip < 0 then (Inl (ValueError ''skip must be a non-negative integer''), w)
      else if limit \<le> 0 then (Inl (ValueError ''limit must be a positive integer''), w)
      else
        (case choose_http session requests
                (polls_request skip limit base_url timeout_seconds) w of
           (Inl request_error, w') \<Rightarrow> (Inl request_error, w')
         | (Inr r, w') \<Rightarrow> (polls_response r, w')))"

section \<open>vote_on_poll\<close>

definition vote_request :: "int \<Rightarrow> int \<Rightarrow> string \<Rightarrow> string \<Rightarrow> real \<Rightarrow> request" where
  "vote_request poll_id option_id token base_url timeout_seconds =
     \<lparr>req_method = POST,
      req_url = rstrip_slash base_url @ ''/polls/'' @ str_int poll_id @ ''/vote'',
      req_json = Some (JObj [(''option_id'', JInt option_id)]),
      req_params = None,
      req_headers = Some [(''Authorization'', ''Bearer '' @ token)],
      req_timeout = timeout_seconds\<rparr>"

text \<open>Lines 194 to 221.\<close>

definition vote_response :: "(json \<Rightarrow> string) \<Rightarrow> response \<Rightarrow> py_error + json" where
  "vote_response py_str r =
     (if status_code r = 200 then
        (case resp_json r of
           Some v \<Rightarrow> Inr v
         | None \<Rightarrow> Inl (HTTPError (''Expected JSON VoteOut from '' @ resp_url r
                                   @ '', but failed to parse.'') r))
      else if status_code r = 401 then
        Inl (PermissionError ''Unauthorized: missing or invalid token'')
      else if status_code r = 404 then
        (case (case resp_json r of
                 None \<Rightarrow> Inr JNull
               | Some err_json \<Rightarrow> detail_or_message err_json) of
           Inl e \<Rightarrow> Inl e
         | Inr detail \<Rightarrow>
             Inl (FileNotFoundError
                    (if truthy detail then ''Not found: '' @ fstr py_str detail
                     else ''Not found: poll or option'')))
      else raise_or_return r)"

definition vote_on_poll ::
  "(json \<Rightarrow> string) \<Rightarrow> 'w transport \<Rightarrow> int \<Rightarrow> int \<Rightarrow> string \<Rightarrow> string \<Rightarrow> real
     \<Rightarrow> 'w transport option \<Rightarrow> 'w \<Rightarrow> (py_error + json) \<times> 'w" where
  "vote_on_poll py_str requests poll_id option_id token base_url timeout_seconds session w =
     (if poll_id \<le> 0 then (Inl (ValueError ''poll_id must be a positive integer''), w)
      else if option_id \<le> 0 then (Inl (ValueError ''option_id must be a positive integer''), w)
      else if token = [] then (Inl (ValueError ''token must be a non-empty string''), w)
      else
        (case choose_http session requests
                (vote_request poll_id option_id token base_url timeout_seconds) w of
           (Inl request_error, w') \<Rightarrow> (Inl request_error, w')
         | (Inr r, w') \<Rightarrow> (vote_response py_str r, w')))"

section \<open>get_poll_results\<close>

definition results_request :: "int \<Rightarrow> string \<Rightarrow> real \<Rightarrow> request" where
  "results_request poll_id base_url timeout_seconds =
     \<lparr>req_method = GET,
      req_url = rstrip_slash base_url @ ''/polls/'' @ str_int poll_id @ ''/results'',
      req_json = None,
      req_params = None,
      req_headers = None,
      req_timeout = timeout_seconds\<rparr>"

text \<open>Lines 261 to 287.\<close>

definition results_response :: "(json \<Rightarrow> string) \<Rightarrow> response \<Rightarrow> py_error + json" where
  "results_response py_str r =
     (if status_code r = 200 then
        (case resp_json r of
           None \<Rightarrow> Inl (HTTPError (''Expected JSON PollResults from '' @ resp_url r
                                   @ '', but failed to parse.'') r)
         | Some data \<Rightarrow>
             if \<not> isinstance_dict data
             then Inl (ValueError ''Expected response to be a JSON object for poll results'')
             else Inr data)
      else if status_code r = 404 then
        (case (case resp_json r of
                 None \<Rightarrow> Inr JNull
               | Some err_json \<Rightarrow> detail_or_message err_json) of
           Inl e \<Rightarrow> Inl e
         | Inr detail \<Rightarrow>
             Inl (FileNotFoundError
                    (if truthy detail then ''Poll not found: '' @ fstr py_str detail
                     else ''Poll not found'')))
      else raise_or_return r)"

definition get_poll_results ::
  "(json \<Rightarrow> string) \<Rightarrow> 'w transport \<Rightarrow> int \<Rightarrow> string \<Rightarrow> real
     \<Rightarrow> 'w transport option \<Rightarrow> 'w \<Rightarrow> (py_error + json) \<times> 'w" where
  "get_poll_results py_str requests poll_id base_url timeout_seconds session w =
     (if poll_id \<le> 0 then (Inl (ValueError ''poll_id must be a positive integer''), w)
      else
        (case choose_http session requests
                (results_request poll_id base_url timeout_seconds) w of
           (Inl request_error, w') \<Rightarrow> (Inl request_error, w')
         | (Inr r, w') \<Rightarrow> (results_response py_str r, w')))"

section \<open>A fake transport\<close>

text \<open>
  The fake of the tests: it answers every request with the same response, and its world
  is the number of calls it has received.
\<close>

definition fake_transport :: "response \<Rightarrow> nat transport" where
  "fake_transport r = (\<lambda>req n. (Inr r, Suc n))"

text \<open>
  An instance of the parameter \<open>py_str\<close> for closed statements: Python's \<^verbatim>\<open>str\<close> on
  \<^verbatim>\<open>None\<close>, booleans and integers, and the type's name as a stand-in elsewhere.
\<close>

definition str_fixture :: "json \<Rightarrow> string" where
  "str_fixture v =
     (case v of
        JNull \<Rightarrow> ''None''
      | JBool b \<Rightarrow> (if b then ''True'' else ''False'')
      | JInt n \<Rightarrow> str_int n
      | _ \<Rightarrow> type_name v)"

definition fake_response :: "int \<Rightarrow> string \<Rightarrow> json option \<Rightarrow> response" where
  "fake_response code body parsed =
     \<lparr>status_code = code, reason = '''', resp_url = '''', resp_text = body, resp_json = parsed\<rparr>"

text \<open>The fixtures of the tests that the spec lists, and an error body whose \<open>detail\<close> is empty.\<close>

definition alice_created :: response where
  \<open>alice_created =
     fake_response 200 ''{"id": 1, "username": "alice"}''
       (Some (JObj [(''id'', JInt 1), (''username'', JStr ''alice'')]))\<close>

definition one_poll :: response where
  \<open>one_poll =
     fake_response 200 ''[{"id":1,"title":"Q"}]''
       (Some (JArr [JObj [(''id'', JInt 1), (''title'', JStr ''Q'')]]))\<close>

definition username_taken :: response where
  \<open>username_taken =
     fake_response 400 ''{"detail":"Username already registered"}''
       (Some (JObj [(''detail'', JStr ''Username already registered'')]))\<close>

definition poll_missing :: response where
  \<open>poll_missing =
     fake_response 404 ''{"detail":"poll missing"}''
       (Some (JObj [(''detail'', JStr ''poll missing'')]))\<close>

definition empty_detail :: "int \<Rightarrow> (string \<times> json) list \<Rightarrow> response" where
  "empty_detail code others =
     fake_response code ''raw body'' (Some (JObj ((''detail'', JStr []) # others)))"

section \<open>Properties of the fragments\<close>

lemma http_error_msg_nonempty:
  "http_error_msg r \<noteq> [] \<longleftrightarrow> 400 \<le> status_code r \<and> status_code r < 600"
  by (auto simp: http_error_msg_def)

lemma raise_or_return_eq:
  "raise_or_return r =
     (if 400 \<le> status_code r \<and> status_code r < 600
      then Inl (HTTPError (http_error_msg r) r) else Inr (parsed_or_raw r))"
  by (simp add: raise_or_return_def raise_for_status_def http_error_msg_nonempty)

lemma detail_or_message_dict:
  "detail_or_message (JObj kvs) =
     Inr (py_or (dict_get kvs ''detail'') (dict_get kvs ''message''))"
  by (simp add: detail_or_message_def json_get_def py_or_def)

lemma detail_or_message_not_dict:
  "\<not> isinstance_dict j \<Longrightarrow> \<exists>msg. detail_or_message j = Inl (AttributeError msg)"
  by (cases j) (simp_all add: detail_or_message_def json_get_def)

text \<open>Once the arguments pass validation, each function makes exactly the one call and hands the response to its response branch.\<close>

lemma register_user_sent:
  assumes "username \<noteq> []" "password \<noteq> []"
    and "answers session requests (register_request username password base_url timeout_seconds) w r w'"
  shows "register_user py_str requests username password base_url timeout_seconds session w =
           (register_response py_str (rstrip_slash base_url @ ''/register'') r, w')"
  using assms by (simp add: register_user_def)

lemma get_polls_sent:
  assumes "0 \<le> skip" "0 < limit"
    and "answers session requests (polls_request skip limit base_url timeout_seconds) w r w'"
  shows "get_polls requests skip limit base_url timeout_seconds session w = (polls_response r, w')"
  using assms by (simp add: get_polls_def)

lemma vote_on_poll_sent:
  assumes "0 < poll_id" "0 < option_id" "token \<noteq> []"
    and "answers session requests (vote_request poll_id option_id token base_url timeout_seconds) w r w'"
  shows "vote_on_poll py_str requests poll_id option_id token base_url timeout_seconds session w =
           (vote_response py_str r, w')"
  using assms by (simp add: vote_on_poll_def)

lemma get_poll_results_sent:
  assumes "0 < poll_id"
    and "answers session requests (results_request poll_id base_url timeout_seconds) w r w'"
  shows "get_poll_results py_str requests poll_id base_url timeout_seconds session w =
           (results_response py_str r, w')"
  using assms by (simp add: get_poll_results_def)

lemma answers_fake: "answers None (fake_transport r) req n r (Suc n)"
  by (simp add: choose_http_def fake_transport_def)

lemma fake_response_sel:
  "status_code (fake_response c b p) = c"
  "resp_text (fake_response c b p) = b"
  "resp_json (fake_response c b p) = p"
  "reason (fake_response c b p) = []"
  "resp_url (fake_response c b p) = []"
  by (simp_all add: fake_response_def)

section \<open>register_user: statuses other than 200 and 400\<close>

text \<open>
  C1, as the code has it. The spec's \<open>HttpError\<close> is \<^verbatim>\<open>requests.HTTPError\<close>, which carries
  the response and so its status code and body. For a response to \<^verbatim>\<open>register_user\<close> whose
  status is neither 200 nor 400: when the status lies in 401..599, the function fails with
  the \<^verbatim>\<open>HTTPError\<close> of \<^verbatim>\<open>raise_for_status\<close>, carrying the response; for every other status
  (1xx, 3xx, the 2xx other than 200, anything outside 100..599) \<^verbatim>\<open>raise_for_status\<close>
  returns, and the function returns the parsed JSON body, or, when the body is not JSON, the
  dictionary of the status code and the raw text.
\<close>

theorem register_user_other_status:
  assumes "username \<noteq> []" and "password \<noteq> []"
    and "answers session requests (register_request username password base_url timeout_seconds) w r w'"
    and "status_code r \<noteq> 200" and "status_code r \<noteq> 400"
  shows "register_user py_str requests username password base_url timeout_seconds session w =
           (if 400 < status_code r \<and> status_code r < 600
            then Inl (HTTPError (http_error_msg r) r)
            else Inr (parsed_or_raw r), w')"
proof -
  have "register_response py_str (rstrip_slash base_url @ ''/register'') r = raise_or_return r"
    using assms(4,5) by (simp add: register_response_def)
  moreover have "(400 \<le> status_code r \<and> status_code r < 600) = (400 < status_code r \<and> status_code r < 600)"
    using assms(5) by auto
  ultimately show ?thesis
    using register_user_sent [OF assms(1-3)] by (simp add: raise_or_return_eq)
qed

theorem register_user_other_status_witness:
  "register_user str_fixture (fake_transport (fake_response 503 ''down'' None))
     ''alice'' ''secret'' ''http://localhost:8000'' 10 None 0 =
   (Inl (HTTPError (http_error_msg (fake_response 503 ''down'' None))
                   (fake_response 503 ''down'' None)), 1)
   \<and> register_user str_fixture (fake_transport (fake_response 204 [] None))
     ''alice'' ''secret'' ''http://localhost:8000'' 10 None 0 =
   (Inr (JObj [(''status_code'', JInt 204), (''content'', JStr [])]), 1)"
  using register_user_other_status [of "''alice''" "''secret''" None
          "fake_transport (fake_response 503 ''down'' None)" "''http://localhost:8000''" 10 0
          "fake_response 503 ''down'' None" 1 str_fixture]
        register_user_other_status [of "''alice''" "''secret''" None
          "fake_transport (fake_response 204 [] None)" "''http://localhost:8000''" 10 0
          "fake_response 204 [] None" 1 str_fixture]
  by (simp add: answers_fake fake_response_sel parsed_or_raw_def)

text \<open>
  C1 as the spec states it fails: a response with status 301 whose body is not JSON is
  neither 2xx nor 400, and \<^verbatim>\<open>register_user\<close> returns the status/body dictionary for it
  instead of failing.
\<close>

theorem register_user_returns_on_301:
  "register_user str_fixture (fake_transport (fake_response 301 ''Moved'' None))
     ''alice'' ''secret'' ''http://localhost:8000'' 10 None 0 =
   (Inr (JObj [(''status_code'', JInt 301), (''content'', JStr ''Moved'')]), 1)"
  by (simp add: register_user_def choose_http_def fake_transport_def fake_response_def
      register_response_def raise_or_return_def raise_for_status_def http_error_msg_def
      parsed_or_raw_def)

section \<open>Arguments are validated before the transport is called\<close>

text \<open>
  C2. The spec's \<open>InvalidArgumentError\<close> is the \<^verbatim>\<open>ValueError\<close> of the argument checks. For
  every \<open>skip < 0\<close> or \<open>limit \<le> 0\<close>, \<^verbatim>\<open>get_polls\<close> fails with that error, and the world
  comes back as it went in, whatever the transports and the world: no call is made.
\<close>

theorem get_polls_invalid_arguments:
  assumes "skip < 0 \<or> limit \<le> 0"
  shows "get_polls requests skip limit base_url timeout_seconds session w =
           (Inl (ValueError (if skip < 0 then ''skip must be a non-negative integer''
                             else ''limit must be a positive integer'')), w)"
  using assms by (auto simp: get_polls_def)

theorem get_polls_invalid_arguments_witness:
  "get_polls (fake_transport (fake_response 200 ''[]'' (Some (JArr [])))) (- 1) 10
     ''http://localhost:8000'' 10 None 0 =
   (Inl (ValueError ''skip must be a non-negative integer''), 0)
   \<and> get_polls (fake_transport (fake_response 200 ''[]'' (Some (JArr [])))) 0 0
     ''http://localhost:8000'' 10 None 0 =
   (Inl (ValueError ''limit must be a positive integer''), 0)"
  using get_polls_invalid_arguments [of "- 1" 10
          "fake_transport (fake_response 200 ''[]'' (Some (JArr [])))"
          "''http://localhost:8000''" 10 None 0]
        get_polls_invalid_arguments [of 0 0
          "fake_transport (fake_response 200 ''[]'' (Some (JArr [])))"
          "''http://localhost:8000''" 10 None 0]
  by simp

text \<open>
  C3. For every \<open>poll_id \<le> 0\<close>, every \<open>option_id \<le> 0\<close> and the empty token,
  \<^verbatim>\<open>vote_on_poll\<close> fails with the \<^verbatim>\<open>ValueError\<close> of the first check that fails, and the
  world comes back as it went in: the transport is not called.
\<close>

theorem vote_on_poll_invalid_arguments:
  assumes "poll_id \<le> 0 \<or> option_id \<le> 0 \<or> token = []"
  shows "vote_on_poll py_str requests poll_id option_id token base_url timeout_seconds session w =
           (Inl (ValueError (if poll_id \<le> 0 then ''poll_id must be a positive integer''
                             else if option_id \<le> 0 then ''option_id must be a positive integer''
                             else ''token must be a non-empty string'')), w)"
  using assms by (auto simp: vote_on_poll_def)

theorem vote_on_poll_invalid_arguments_witness:
  "vote_on_poll str_fixture (fake_transport (fake_response 200 ''{}'' (Some (JObj [])))) 0 1 ''tok''
     ''http://localhost:8000'' 10 None 0 =
   (Inl (ValueError ''poll_id must be a positive integer''), 0)
   \<and> vote_on_poll str_fixture (fake_transport (fake_response 200 ''{}'' (Some (JObj [])))) 5 (- 2) ''tok''
     ''http://localhost:8000'' 10 None 0 =
   (Inl (ValueError ''option_id must be a positive integer''), 0)
   \<and> vote_on_poll str_fixture (fake_transport (fake_response 200 ''{}'' (Some (JObj [])))) 5 1 []
     ''http://localhost:8000'' 10 None 0 =
   (Inl (ValueError ''token must be a non-empty string''), 0)"
  using vote_on_poll_invalid_arguments [of 0 1 "''tok''" str_fixture
          "fake_transport (fake_response 200 ''{}'' (Some (JObj [])))"
          "''http://localhost:8000''" 10 None 0]
        vote_on_poll_invalid_arguments [of 5 "- 2" "''tok''" str_fixture
          "fake_transport (fake_response 200 ''{}'' (Some (JObj [])))"
          "''http://localhost:8000''" 10 None 0]
        vote_on_poll_invalid_arguments [of 5 1 "[]" str_fixture
          "fake_transport (fake_response 200 ''{}'' (Some (JObj [])))"
          "''http://localhost:8000''" 10 None 0]
  by simp

section \<open>register_user: status 400\<close>

text \<open>
  The spec's \<open>InvalidRequestError\<close> is the \<^verbatim>\<open>ValueError\<close> of line 66. When the body of a 400
  response is not JSON, or is a JSON object, \<^verbatim>\<open>register_user\<close> fails with that error; its
  message ends with the \<open>detail\<close> field when that is truthy, else with the \<open>message\<close> field
  when that is truthy, else with the raw text.
\<close>

lemma register_user_400_dict_or_text:
  assumes "username \<noteq> []" and "password \<noteq> []"
    and "answers session requests (register_request username password base_url timeout_seconds) w r w'"
    and "status_code r = 400"
    and "case resp_json r of None \<Rightarrow> True | Some j \<Rightarrow> isinstance_dict j"
  shows "register_user py_str requests username password base_url timeout_seconds session w =
           (Inl (ValueError (''Registration failed (400): '' @
              (case resp_json r of
                 Some (JObj kvs) \<Rightarrow>
                   fstr py_str (py_or (py_or (dict_get kvs ''detail'') (dict_get kvs ''message''))
                                      (JStr (resp_text r)))
               | _ \<Rightarrow> resp_text r))), w')"
proof (cases "resp_json r")
  case None
  then show ?thesis
    using register_user_sent [OF assms(1-3)] assms(4) by (simp add: register_response_def)
next
  case (Some j)
  with assms(5) obtain kvs where "j = JObj kvs" by (cases j) simp_all
  with Some show ?thesis
    using register_user_sent [OF assms(1-3)] assms(4)
    by (simp add: register_response_def detail_or_message_dict)
qed

lemma register_user_username_taken:
  "\<exists>msg. register_user str_fixture (fake_transport username_taken)
            ''alice'' ''secret'' ''http://localhost:8000'' 10 None 0 = (Inl (ValueError msg), 1)
         \<and> sublist ''Username already registered'' msg"
proof -
  have "register_user str_fixture (fake_transport username_taken)
            ''alice'' ''secret'' ''http://localhost:8000'' 10 None 0 =
        (Inl (ValueError (''Registration failed (400): '' @ ''Username already registered'' @ [])), 1)"
    using register_user_400_dict_or_text [of "''alice''" "''secret''" None
            "fake_transport username_taken" "''http://localhost:8000''" 10 0 username_taken 1 str_fixture]
    by (simp add: answers_fake fake_response_sel username_taken_def dict_get_def py_or_def fstr_def)
  then show ?thesis
    using sublist_appendI by blast
qed

text \<open>
  C4 fails on the code where the 400 body is JSON but not an object. For the body \<^verbatim>\<open>[]\<close>,
  \<^verbatim>\<open>error_json.get("detail")\<close> raises \<^verbatim>\<open>AttributeError\<close>, which \<^verbatim>\<open>except ValueError\<close> does
  not catch: \<^verbatim>\<open>register_user\<close> fails with \<^verbatim>\<open>'list' object has no attribute 'get'\<close>
  instead of the \<^verbatim>\<open>ValueError\<close> that wraps the raw text.
\<close>

theorem register_user_400_array_body:
  "register_user str_fixture (fake_transport (fake_response 400 ''[]'' (Some (JArr []))))
     ''alice'' ''secret'' ''http://localhost:8000'' 10 None 0 =
   (Inl (AttributeError (CHR 0x27 # ''list'' @ CHR 0x27 # '' object has no attribute ''
                         @ CHR 0x27 # ''get'' @ [CHR 0x27])), 1)"
  by (simp add: register_user_def choose_http_def fake_transport_def fake_response_def
      register_response_def detail_or_message_def json_get_def)

text \<open>The same holds for every 400 body that parses to something other than a dictionary.\<close>

lemma register_user_400_not_dict:
  assumes "username \<noteq> []" and "password \<noteq> []"
    and "answers session requests (register_request username password base_url timeout_seconds) w r w'"
    and "status_code r = 400" and "resp_json r = Some j" and "\<not> isinstance_dict j"
  shows "\<exists>msg. register_user py_str requests username password base_url timeout_seconds session w =
           (Inl (AttributeError msg), w')"
proof -
  obtain msg where "detail_or_message j = Inl (AttributeError msg)"
    using detail_or_message_not_dict [OF assms(6)] by blast
  then show ?thesis
    using register_user_sent [OF assms(1-3)] assms(4,5) by (simp add: register_response_def)
qed

section \<open>vote_on_poll: status 404\<close>

text \<open>
  C5, as the code has it. The spec's \<open>NotFoundError\<close> is \<^verbatim>\<open>FileNotFoundError\<close>. For a 404
  response to \<^verbatim>\<open>vote_on_poll\<close> whose body is not JSON or is a JSON object, the function
  fails with \<^verbatim>\<open>FileNotFoundError\<close>. Its message is \<^verbatim>\<open>Not found: \<close> followed by the
  \<open>detail\<close> field when that is truthy, else by the \<open>message\<close> field when that is truthy;
  otherwise it is the generic \<^verbatim>\<open>Not found: poll or option\<close>.
\<close>

theorem vote_on_poll_404:
  assumes "0 < poll_id" and "0 < option_id" and "token \<noteq> []"
    and "answers session requests (vote_request poll_id option_id token base_url timeout_seconds) w r w'"
    and "status_code r = 404"
    and "case resp_json r of None \<Rightarrow> True | Some j \<Rightarrow> isinstance_dict j"
  shows "vote_on_poll py_str requests poll_id option_id token base_url timeout_seconds session w =
           (Inl (FileNotFoundError
              (case resp_json r of
                 Some (JObj kvs) \<Rightarrow>
                   if truthy (dict_get kvs ''detail'')
                   then ''Not found: '' @ fstr py_str (dict_get kvs ''detail'')
                   else if truthy (dict_get kvs ''message'')
                   then ''Not found: '' @ fstr py_str (dict_get kvs ''message'')
                   else ''Not found: poll or option''
               | _ \<Rightarrow> ''Not found: poll or option'')), w')"
proof (cases "resp_json r")
  case None
  then show ?thesis
    using vote_on_poll_sent [OF assms(1-4)] assms(5) by (simp add: vote_response_def)
next
  case (Some j)
  with assms(6) obtain kvs where "j = JObj kvs" by (cases j) simp_all
  with Some show ?thesis
    using vote_on_poll_sent [OF assms(1-4)] assms(5)
    by (simp add: vote_response_def detail_or_message_dict py_or_def)
qed

theorem vote_on_poll_404_witness:
  "vote_on_poll str_fixture (fake_transport poll_missing) 5 1 ''tok''
     ''http://localhost:8000'' 10 None 0 =
   (Inl (FileNotFoundError ''Not found: poll missing''), 1)
   \<and> vote_on_poll str_fixture
       (fake_transport (fake_response 404 ''gone'' (Some (JObj [(''message'', JStr ''no such option'')]))))
       5 1 ''tok'' ''http://localhost:8000'' 10 None 0 =
   (Inl (FileNotFoundError ''Not found: no such option''), 1)
   \<and> vote_on_poll str_fixture (fake_transport (fake_response 404 ''gone'' None)) 5 1 ''tok''
     ''http://localhost:8000'' 10 None 0 =
   (Inl (FileNotFoundError ''Not found: poll or option''), 1)"
  using vote_on_poll_404 [of 5 1 "''tok''" None "fake_transport poll_missing"
          "''http://localhost:8000''" 10 0 poll_missing 1 str_fixture]
        vote_on_poll_404 [of 5 1 "''tok''" None
          "fake_transport (fake_response 404 ''gone'' (Some (JObj [(''message'', JStr ''no such option'')])))"
          "''http://localhost:8000''" 10 0
          "fake_response 404 ''gone'' (Some (JObj [(''message'', JStr ''no such option'')]))" 1 str_fixture]
        vote_on_poll_404 [of 5 1 "''tok''" None "fake_transport (fake_response 404 ''gone'' None)"
          "''http://localhost:8000''" 10 0 "fake_response 404 ''gone'' None" 1 str_fixture]
  by (simp add: answers_fake fake_response_sel poll_missing_def dict_get_def fstr_def)

text \<open>
  C5 as the spec states it fails: without a detail, the message is
  \<^verbatim>\<open>Not found: poll or option\<close>, which is not \<^verbatim>\<open>poll or option not found\<close> and does not
  contain it.
\<close>

theorem vote_on_poll_404_generic_message:
  "vote_on_poll str_fixture (fake_transport (fake_response 404 ''gone'' None)) 5 1 ''tok''
     ''http://localhost:8000'' 10 None 0 =
   (Inl (FileNotFoundError ''Not found: poll or option''), 1)
   \<and> \<not> sublist ''poll or option not found'' ''Not found: poll or option''"
proof -
  have "\<not> sublist ''poll or option not found'' ''Not found: poll or option''"
    by code_simp
  then show ?thesis
    by (simp add: vote_on_poll_def choose_http_def fake_transport_def fake_response_def
        vote_response_def)
qed

section \<open>get_polls: a malformed 200 body\<close>

text \<open>
  C6. The spec's \<open>ProtocolError\<close> covers the two failures of the 200 branch of
  \<^verbatim>\<open>get_polls\<close>. For every 200 response whose body is not a JSON array, \<^verbatim>\<open>get_polls\<close>
  fails: with the \<^verbatim>\<open>HTTPError\<close> of line 127 when the body does not parse, and with the
  \<^verbatim>\<open>ValueError\<close> of line 133 when it parses to anything but a list.
\<close>

theorem get_polls_200_not_an_array:
  assumes "0 \<le> skip" and "0 < limit"
    and "answers session requests (polls_request skip limit base_url timeout_seconds) w r w'"
    and "status_code r = 200"
    and "case resp_json r of None \<Rightarrow> True | Some data \<Rightarrow> \<not> isinstance_list data"
  shows "get_polls requests skip limit base_url timeout_seconds session w =
           (Inl (case resp_json r of
                   None \<Rightarrow> HTTPError (''Expected JSON array from '' @ resp_url r
                                       @ '', but failed to parse.'') r
                 | Some data \<Rightarrow> ValueError ''Expected response to be a JSON array of polls''), w')"
proof (cases "resp_json r")
  case None
  then show ?thesis
    using get_polls_sent [OF assms(1-3)] assms(4) by (simp add: polls_response_def)
next
  case (Some data)
  then show ?thesis
    using get_polls_sent [OF assms(1-3)] assms(4,5) by (simp add: polls_response_def)
qed

theorem get_polls_200_not_an_array_witness:
  "get_polls (fake_transport (fake_response 200 ''{}'' (Some (JObj [])))) 0 10
     ''http://localhost:8000'' 10 None 0 =
   (Inl (ValueError ''Expected response to be a JSON array of polls''), 1)
   \<and> get_polls (fake_transport (fake_response 200 ''<html>'' None)) 0 10
     ''http://localhost:8000'' 10 None 0 =
   (Inl (HTTPError ''Expected JSON array from , but failed to parse.''
           (fake_response 200 ''<html>'' None)), 1)"
  using get_polls_200_not_an_array [of 0 10 None
          "fake_transport (fake_response 200 ''{}'' (Some (JObj [])))"
          "''http://localhost:8000''" 10 0 "fake_response 200 ''{}'' (Some (JObj []))" 1]
        get_polls_200_not_an_array [of 0 10 None
          "fake_transport (fake_response 200 ''<html>'' None)"
          "''http://localhost:8000''" 10 0 "fake_response 200 ''<html>'' None" 1]
  by (simp add: answers_fake fake_response_sel)

section \<open>get_poll_results: status 404\<close>

text \<open>
  When the body of a 404 response is not JSON, or is a JSON object, \<^verbatim>\<open>get_poll_results\<close>
  fails with \<^verbatim>\<open>FileNotFoundError\<close>; its message is \<^verbatim>\<open>Poll not found: \<close> followed by the
  \<open>detail\<close> field when that is truthy, else by the \<open>message\<close> field when that is truthy,
  and \<^verbatim>\<open>Poll not found\<close> otherwise.
\<close>

lemma get_poll_results_404_dict_or_text:
  assumes "0 < poll_id"
    and "answers session requests (results_request poll_id base_url timeout_seconds) w r w'"
    and "status_code r = 404"
    and "case resp_json r of None \<Rightarrow> True | Some j \<Rightarrow> isinstance_dict j"
  shows "get_poll_results py_str requests poll_id base_url timeout_seconds session w =
           (Inl (FileNotFoundError
              (case resp_json r of
                 Some (JObj kvs) \<Rightarrow>
                   if truthy (dict_get kvs ''detail'')
                   then ''Poll not found: '' @ fstr py_str (dict_get kvs ''detail'')
                   else if truthy (dict_get kvs ''message'')
                   then ''Poll not found: '' @ fstr py_str (dict_get kvs ''message'')
                   else ''Poll not found''
               | _ \<Rightarrow> ''Poll not found'')), w')"
proof (cases "resp_json r")
  case None
  then show ?thesis
    using get_poll_results_sent [OF assms(1,2)] assms(3) by (simp add: results_response_def)
next
  case (Some j)
  with assms(4) obtain kvs where "j = JObj kvs" by (cases j) simp_all
  with Some show ?thesis
    using get_poll_results_sent [OF assms(1,2)] assms(3)
    by (simp add: results_response_def detail_or_message_dict py_or_def)
qed

lemma get_poll_results_poll_missing:
  "\<exists>msg. get_poll_results str_fixture (fake_transport poll_missing) 5
            ''http://localhost:8000'' 10 None 0 = (Inl (FileNotFoundError msg), 1)
         \<and> sublist ''poll missing'' msg"
proof -
  have "get_poll_results str_fixture (fake_transport poll_missing) 5
            ''http://localhost:8000'' 10 None 0 =
        (Inl (FileNotFoundError (''Poll not found: '' @ ''poll missing'' @ [])), 1)"
    using get_poll_results_404_dict_or_text [of 5 None "fake_transport poll_missing"
            "''http://localhost:8000''" 10 0 poll_missing 1 str_fixture]
    by (simp add: answers_fake fake_response_sel poll_missing_def dict_get_def fstr_def)
  then show ?thesis
    using sublist_appendI by blast
qed

text \<open>
  C7 fails on the code where the 404 body is JSON but not an object. For the body \<^verbatim>\<open>[]\<close>,
  \<^verbatim>\<open>err_json.get("detail")\<close> raises \<^verbatim>\<open>AttributeError\<close>, which \<^verbatim>\<open>except ValueError\<close> does
  not catch: \<^verbatim>\<open>get_poll_results\<close> fails with \<^verbatim>\<open>'list' object has no attribute 'get'\<close>
  instead of \<^verbatim>\<open>FileNotFoundError\<close>.
\<close>

theorem get_poll_results_404_array_body:
  "get_poll_results str_fixture (fake_transport (fake_response 404 ''[]'' (Some (JArr [])))) 5
     ''http://localhost:8000'' 10 None 0 =
   (Inl (AttributeError (CHR 0x27 # ''list'' @ CHR 0x27 # '' object has no attribute ''
                         @ CHR 0x27 # ''get'' @ [CHR 0x27])), 1)"
  by (simp add: get_poll_results_def choose_http_def fake_transport_def fake_response_def
      results_response_def detail_or_message_def json_get_def)

text \<open>The same holds for every 404 body that parses to something other than a dictionary.\<close>

lemma get_poll_results_404_not_dict:
  assumes "0 < poll_id"
    and "answers session requests (results_request poll_id base_url timeout_seconds) w r w'"
    and "status_code r = 404" and "resp_json r = Some j" and "\<not> isinstance_dict j"
  shows "\<exists>msg. get_poll_results py_str requests poll_id base_url timeout_seconds session w =
           (Inl (AttributeError msg), w')"
proof -
  obtain msg where "detail_or_message j = Inl (AttributeError msg)"
    using detail_or_message_not_dict [OF assms(5)] by blast
  then show ?thesis
    using get_poll_results_sent [OF assms(1,2)] assms(3,4) by (simp add: results_response_def)
qed

section \<open>Status 200: the parsed body is the result\<close>

text \<open>
  C8. For every 200 response whose body parses to \<open>v\<close>, each operation that accepts the
  top-level kind of \<open>v\<close> returns \<open>v\<close> itself: \<^verbatim>\<open>register_user\<close> and \<^verbatim>\<open>vote_on_poll\<close> for
  every \<open>v\<close>, \<^verbatim>\<open>get_polls\<close> when \<open>v\<close> is a list (the list as parsed, elements untouched),
  \<^verbatim>\<open>get_poll_results\<close> when \<open>v\<close> is a dictionary.
\<close>

theorem parsed_body_returned_unchanged:
  assumes "status_code r = 200" and "resp_json r = Some v"
  shows "(username \<noteq> [] \<and> password \<noteq> []
            \<and> answers session requests (register_request username password base_url timeout_seconds) w r w'
          \<longrightarrow> register_user py_str requests username password base_url timeout_seconds session w
                = (Inr v, w'))
       \<and> (0 < poll_id \<and> 0 < option_id \<and> token \<noteq> []
            \<and> answers session requests (vote_request poll_id option_id token base_url timeout_seconds) w r w'
          \<longrightarrow> vote_on_poll py_str requests poll_id option_id token base_url timeout_seconds session w
                = (Inr v, w'))
       \<and> (0 \<le> skip \<and> 0 < limit \<and> isinstance_list v
            \<and> answers session requests (polls_request skip limit base_url timeout_seconds) w r w'
          \<longrightarrow> get_polls requests skip limit base_url timeout_seconds session w = (Inr v, w'))
       \<and> (0 < poll_id \<and> isinstance_dict v
            \<and> answers session requests (results_request poll_id base_url timeout_seconds) w r w'
          \<longrightarrow> get_poll_results py_str requests poll_id base_url timeout_seconds session w
                = (Inr v, w'))"
proof (intro conjI impI)
  assume "username \<noteq> [] \<and> password \<noteq> []
            \<and> answers session requests (register_request username password base_url timeout_seconds) w r w'"
  then show "register_user py_str requests username password base_url timeout_seconds session w
                = (Inr v, w')"
    using assms by (simp add: register_user_sent register_response_def)
next
  assume "0 < poll_id \<and> 0 < option_id \<and> token \<noteq> []
            \<and> answers session requests (vote_request poll_id option_id token base_url timeout_seconds) w r w'"
  then show "vote_on_poll py_str requests poll_id option_id token base_url timeout_seconds session w
                = (Inr v, w')"
    using assms by (simp add: vote_on_poll_sent vote_response_def)
next
  assume "0 \<le> skip \<and> 0 < limit \<and> isinstance_list v
            \<and> answers session requests (polls_request skip limit base_url timeout_seconds) w r w'"
  then show "get_polls requests skip limit base_url timeout_seconds session w = (Inr v, w')"
    using assms by (simp add: get_polls_sent polls_response_def)
next
  assume "0 < poll_id \<and> isinstance_dict v
            \<and> answers session requests (results_request poll_id base_url timeout_seconds) w r w'"
  then show "get_poll_results py_str requests poll_id base_url timeout_seconds session w
                = (Inr v, w')"
    using assms by (simp add: get_poll_results_sent results_response_def)
qed

theorem parsed_body_returned_unchanged_witness:
  "register_user str_fixture (fake_transport alice_created)
     ''alice'' ''secret'' ''http://localhost:8000'' 10 None 0 =
   (Inr (JObj [(''id'', JInt 1), (''username'', JStr ''alice'')]), 1)
   \<and> get_poll_results str_fixture (fake_transport alice_created) 5
     ''http://localhost:8000'' 10 None 0 =
   (Inr (JObj [(''id'', JInt 1), (''username'', JStr ''alice'')]), 1)
   \<and> vote_on_poll str_fixture (fake_transport one_poll) 5 1 ''tok''
     ''http://localhost:8000'' 10 None 0 =
   (Inr (JArr [JObj [(''id'', JInt 1), (''title'', JStr ''Q'')]]), 1)
   \<and> get_polls (fake_transport one_poll) 0 10 ''http://localhost:8000'' 10 None 0 =
   (Inr (JArr [JObj [(''id'', JInt 1), (''title'', JStr ''Q'')]]), 1)"
  using parsed_body_returned_unchanged [where r = alice_created
          and v = "JObj [(''id'', JInt 1), (''username'', JStr ''alice'')]"
          and username = "''alice''" and password = "''secret''" and session = None
          and requests = "fake_transport alice_created" and base_url = "''http://localhost:8000''"
          and timeout_seconds = 10 and w = 0 and w' = 1 and py_str = str_fixture
          and poll_id = 5 and option_id = 1 and token = "''tok''" and skip = 0 and limit = 10]
        parsed_body_returned_unchanged [where r = one_poll
          and v = "JArr [JObj [(''id'', JInt 1), (''title'', JStr ''Q'')]]"
          and username = "''alice''" and password = "''secret''" and session = None
          and requests = "fake_transport one_poll" and base_url = "''http://localhost:8000''"
          and timeout_seconds = 10 and w = 0 and w' = 1 and py_str = str_fixture
          and poll_id = 5 and option_id = 1 and token = "''tok''" and skip = 0 and limit = 10]
  by (simp add: answers_fake fake_response_sel alice_created_def one_poll_def)

text \<open>
  C9. For every 200 response whose body parses to a value \<open>v\<close> that is not a dictionary
  (a number, a string, a list, \<^verbatim>\<open>None\<close>, a boolean), \<^verbatim>\<open>register_user\<close> and
  \<^verbatim>\<open>vote_on_poll\<close> return \<open>v\<close>, while \<^verbatim>\<open>get_poll_results\<close> fails with the \<^verbatim>\<open>ValueError\<close>
  of line 270.
\<close>

theorem no_shape_check_on_register_and_vote:
  assumes "status_code r = 200" and "resp_json r = Some v" and "\<not> isinstance_dict v"
  shows "(username \<noteq> [] \<and> password \<noteq> []
            \<and> answers session requests (register_request username password base_url timeout_seconds) w r w'
          \<longrightarrow> register_user py_str requests username password base_url timeout_seconds session w
                = (Inr v, w'))
       \<and> (0 < poll_id \<and> 0 < option_id \<and> token \<noteq> []
            \<and> answers session requests (vote_request poll_id option_id token base_url timeout_seconds) w r w'
          \<longrightarrow> vote_on_poll py_str requests poll_id option_id token base_url timeout_seconds session w
                = (Inr v, w'))
       \<and> (0 < poll_id
            \<and> answers session requests (results_request poll_id base_url timeout_seconds) w r w'
          \<longrightarrow> get_poll_results py_str requests poll_id base_url timeout_seconds session w
                = (Inl (ValueError ''Expected response to be a JSON object for poll results''), w'))"
proof (intro conjI impI)
  assume "username \<noteq> [] \<and> password \<noteq> []
            \<and> answers session requests (register_request username password base_url timeout_seconds) w r w'"
  then show "register_user py_str requests username password base_url timeout_seconds session w
                = (Inr v, w')"
    using assms(1,2) by (simp add: register_user_sent register_response_def)
next
  assume "0 < poll_id \<and> 0 < option_id \<and> token \<noteq> []
            \<and> answers session requests (vote_request poll_id option_id token base_url timeout_seconds) w r w'"
  then show "vote_on_poll py_str requests poll_id option_id token base_url timeout_seconds session w
                = (Inr v, w')"
    using assms(1,2) by (simp add: vote_on_poll_sent vote_response_def)
next
  assume "0 < poll_id
            \<and> answers session requests (results_request poll_id base_url timeout_seconds) w r w'"
  then show "get_poll_results py_str requests poll_id base_url timeout_seconds session w
                = (Inl (ValueError ''Expected response to be a JSON object for poll results''), w')"
    using assms by (simp add: get_poll_results_sent results_response_def)
qed

theorem no_shape_check_on_register_and_vote_witness:
  "register_user str_fixture (fake_transport (fake_response 200 ''42'' (Some (JInt 42))))
     ''alice'' ''secret'' ''http://localhost:8000'' 10 None 0 = (Inr (JInt 42), 1)
   \<and> vote_on_poll str_fixture (fake_transport (fake_response 200 ''42'' (Some (JInt 42)))) 5 1 ''tok''
     ''http://localhost:8000'' 10 None 0 = (Inr (JInt 42), 1)
   \<and> get_poll_results str_fixture (fake_transport (fake_response 200 ''42'' (Some (JInt 42)))) 5
     ''http://localhost:8000'' 10 None 0 =
   (Inl (ValueError ''Expected response to be a JSON object for poll results''), 1)"
  using no_shape_check_on_register_and_vote [where r = "fake_response 200 ''42'' (Some (JInt 42))"
          and v = "JInt 42"
          and username = "''alice''" and password = "''secret''" and session = None
          and requests = "fake_transport (fake_response 200 ''42'' (Some (JInt 42)))"
          and base_url = "''http://localhost:8000''"
          and timeout_seconds = 10 and w = 0 and w' = 1 and py_str = str_fixture
          and poll_id = 5 and option_id = 1 and token = "''tok''"]
  by (simp add: answers_fake fake_response_sel)

section \<open>Error details are chosen by truth value\<close>

text \<open>
  C10. When the JSON object of an error body has the \<open>detail\<close> field and it is the empty
  string, the three error branches pass over it as if it were missing. On status 400
  \<^verbatim>\<open>register_user\<close> reports the \<open>message\<close> field when that is truthy and the raw text
  otherwise; on status 404 \<^verbatim>\<open>vote_on_poll\<close> and \<^verbatim>\<open>get_poll_results\<close> report the \<open>message\<close>
  field when that is truthy and their generic message otherwise.
\<close>

theorem empty_detail_counts_as_absent:
  assumes "map_of kvs ''detail'' = Some (JStr [])" and "resp_json r = Some (JObj kvs)"
  shows "(username \<noteq> [] \<and> password \<noteq> [] \<and> status_code r = 400
            \<and> answers session requests (register_request username password base_url timeout_seconds) w r w'
          \<longrightarrow> register_user py_str requests username password base_url timeout_seconds session w
                = (Inl (ValueError (''Registration failed (400): '' @
                     (if truthy (dict_get kvs ''message'')
                      then fstr py_str (dict_get kvs ''message'') else resp_text r))), w'))
       \<and> (0 < poll_id \<and> 0 < option_id \<and> token \<noteq> [] \<and> status_code r = 404
            \<and> answers session requests (vote_request poll_id option_id token base_url timeout_seconds) w r w'
          \<longrightarrow> vote_on_poll py_str requests poll_id option_id token base_url timeout_seconds session w
                = (Inl (FileNotFoundError
                     (if truthy (dict_get kvs ''message'')
                      then ''Not found: '' @ fstr py_str (dict_get kvs ''message'')
                      else ''Not found: poll or option'')), w'))
       \<and> (0 < poll_id \<and> status_code r = 404
            \<and> answers session requests (results_request poll_id base_url timeout_seconds) w r w'
          \<longrightarrow> get_poll_results py_str requests poll_id base_url timeout_seconds session w
                = (Inl (FileNotFoundError
                     (if truthy (dict_get kvs ''message'')
                      then ''Poll not found: '' @ fstr py_str (dict_get kvs ''message'')
                      else ''Poll not found'')), w'))"
proof -
  have d: "dict_get kvs ''detail'' = JStr []"
    using assms(1) by (simp add: dict_get_def)
  have dm: "detail_or_message (JObj kvs) = Inr (dict_get kvs ''message'')"
    by (simp add: detail_or_message_dict py_or_def d)
  show ?thesis
  proof (intro conjI impI)
    assume "username \<noteq> [] \<and> password \<noteq> [] \<and> status_code r = 400
            \<and> answers session requests (register_request username password base_url timeout_seconds) w r w'"
    then show "register_user py_str requests username password base_url timeout_seconds session w
                = (Inl (ValueError (''Registration failed (400): '' @
                     (if truthy (dict_get kvs ''message'')
                      then fstr py_str (dict_get kvs ''message'') else resp_text r))), w')"
      using assms(2) by (simp add: register_user_sent register_response_def dm py_or_def fstr_def)
  next
    assume "0 < poll_id \<and> 0 < option_id \<and> token \<noteq> [] \<and> status_code r = 404
            \<and> answers session requests (vote_request poll_id option_id token base_url timeout_seconds) w r w'"
    then show "vote_on_poll py_str requests poll_id option_id token base_url timeout_seconds session w
                = (Inl (FileNotFoundError
                     (if truthy (dict_get kvs ''message'')
                      then ''Not found: '' @ fstr py_str (dict_get kvs ''message'')
                      else ''Not found: poll or option'')), w')"
      using assms(2) by (simp add: vote_on_poll_sent vote_response_def dm)
  next
    assume "0 < poll_id \<and> status_code r = 404
            \<and> answers session requests (results_request poll_id base_url timeout_seconds) w r w'"
    then show "get_poll_results py_str requests poll_id base_url timeout_seconds session w
                = (Inl (FileNotFoundError
                     (if truthy (dict_get kvs ''message'')
                      then ''Poll not found: '' @ fstr py_str (dict_get kvs ''message'')
                      else ''Poll not found'')), w')"
      using assms(2) by (simp add: get_poll_results_sent results_response_def dm)
  qed
qed

theorem empty_detail_counts_as_absent_witness:
  \<open>register_user str_fixture (fake_transport (empty_detail 400 [(''message'', JStr ''bad input'')]))
     ''alice'' ''secret'' ''http://localhost:8000'' 10 None 0 =
   (Inl (ValueError ''Registration failed (400): bad input''), 1)
   \<and> register_user str_fixture (fake_transport (empty_detail 400 []))
     ''alice'' ''secret'' ''http://localhost:8000'' 10 None 0 =
   (Inl (ValueError ''Registration failed (400): raw body''), 1)
   \<and> vote_on_poll str_fixture (fake_transport (empty_detail 404 [(''message'', JStr ''no such poll'')]))
     5 1 ''tok'' ''http://localhost:8000'' 10 None 0 =
   (Inl (FileNotFoundError ''Not found: no such poll''), 1)
   \<and> vote_on_poll str_fixture (fake_transport (empty_detail 404 []))
     5 1 ''tok'' ''http://localhost:8000'' 10 None 0 =
   (Inl (FileNotFoundError ''Not found: poll or option''), 1)
   \<and> get_poll_results str_fixture (fake_transport (empty_detail 404 [(''message'', JStr ''no such poll'')]))
     5 ''http://localhost:8000'' 10 None 0 =
   (Inl (FileNotFoundError ''Poll not found: no such poll''), 1)
   \<and> get_poll_results str_fixture (fake_transport (empty_detail 404 []))
     5 ''http://localhost:8000'' 10 None 0 =
   (Inl (FileNotFoundError ''Poll not found''), 1)\<close>
  using empty_detail_counts_as_absent [where kvs = "(''detail'', JStr []) # [(''message'', JStr ''bad input'')]"
          and r = "empty_detail 400 [(''message'', JStr ''bad input'')]"
          and username = "''alice''" and password = "''secret''" and session = None
          and requests = "fake_transport (empty_detail 400 [(''message'', JStr ''bad input'')])"
          and base_url = "''http://localhost:8000''"
          and timeout_seconds = 10 and w = 0 and w' = 1 and py_str = str_fixture
          and poll_id = 5 and option_id = 1 and token = "''tok''"]
        empty_detail_counts_as_absent [where kvs = "[(''detail'', JStr [])]"
          and r = "empty_detail 400 []"
          and username = "''alice''" and password = "''secret''" and session = None
          and requests = "fake_transport (empty_detail 400 [])"
          and base_url = "''http://localhost:8000''"
          and timeout_seconds = 10 and w = 0 and w' = 1 and py_str = str_fixture
          and poll_id = 5 and option_id = 1 and token = "''tok''"]
        empty_detail_counts_as_absent [where kvs = "(''detail'', JStr []) # [(''message'', JStr ''no such poll'')]"
          and r = "empty_detail 404 [(''message'', JStr ''no such poll'')]"
          and username = "''alice''" and password = "''secret''" and session = None
          and requests = "fake_transport (empty_detail 404 [(''message'', JStr ''no such poll'')])"
          and base_url = "''http://localhost:8000''"
          and timeout_seconds = 10 and w = 0 and w' = 1 and py_str = str_fixture
          and poll_id = 5 and option_id = 1 and token = "''tok''"]
        empty_detail_counts_as_absent [where kvs = "[(''detail'', JStr [])]"
          and r = "empty_detail 404 []"
          and username = "''alice''" and password = "''secret''" and session = None
          and requests = "fake_transport (empty_detail 404 [])"
          and base_url = "''http://localhost:8000''"
          and timeout_seconds = 10 and w = 0 and w' = 1 and py_str = str_fixture
          and poll_id = 5 and option_id = 1 and token = "''tok''"]
  by (simp add: answers_fake fake_response_sel empty_detail_def dict_get_def fstr_def)

text \<open>
  The extraction cannot tell such a body from the same body without the \<open>detail\<close> field.
\<close>

lemma map_of_without_key:
  "map_of (filter (\<lambda>kv. fst kv \<noteq> k) kvs) k' = (if k' = k then None else map_of kvs k')"
  by (induction kvs) auto

lemma detail_or_message_without_detail:
  assumes "map_of kvs ''detail'' = Some (JStr [])"
  shows "detail_or_message (JObj kvs) =
           detail_or_message (JObj (filter (\<lambda>kv. fst kv \<noteq> ''detail'') kvs))"
  using assms by (simp add: detail_or_message_dict dict_get_def py_or_def map_of_without_key)

end
